theory Spec2Isabelle
  imports Main
begin

section \<open>Python values stored in the tree\<close>

text \<open>
  The module \<^verbatim>\<open>ast.py\<close> declares one base class \<^verbatim>\<open>Node\<close>, thirty-one node classes and
  the class \<^verbatim>\<open>Coord\<close>. A node class is identified by its \<open>kind\<close>; the class \<^verbatim>\<open>If\<close> is
  written \<open>If'\<close>.
\<close>

datatype kind =
    Program | Constant | Cast | Type | GlobalDecl | FuncDecl | FuncDef | FuncCall
  | VarDecl | Decl | PtrDecl | ArrayRef | ArrayDecl | DeclList | InitList | ExprList
  | ParamList | UnaryOp | BinaryOp | Assignment | Compound | EmptyStatement | Break
  | Assert | For | While | Return | ID | Print | Read | If'

text \<open>The exceptions the module's code can raise.\<close>

datatype error = AttributeError | TypeError | NameError | IndexError

text \<open>
  Python is dynamically typed: any field of a node can hold any value. The values of the
  model are \<^verbatim>\<open>None\<close>, booleans, integers, strings, lists, \<^verbatim>\<open>Coord\<close> objects (their two
  slots \<^verbatim>\<open>line\<close> and \<^verbatim>\<open>column\<close>) and node objects. A node object is its class and the
  slots that have been assigned, each with its value; every class declares \<^verbatim>\<open>__slots__\<close>,
  so an object has no other attribute storage. Tuples, floats and dictionaries are not
  values of the model.
\<close>

datatype pyval =
    PyNone
  | PyBool bool
  | PyInt int
  | PyStr string
  | PyList "pyval list"
  | Coord pyval pyval
  | Node kind "(string \<times> pyval) list"

text \<open>Sequencing of computations that may raise.\<close>

definition andthen :: "error + 'a \<Rightarrow> ('a \<Rightarrow> error + 'b) \<Rightarrow> error + 'b" where
  "andthen m f = (case m of Inl e \<Rightarrow> Inl e | Inr x \<Rightarrow> f x)"

lemma andthen_simps [simp]:
  "andthen (Inl e) f = Inl e"
  "andthen (Inr x) f = f x"
  by (simp_all add: andthen_def)

text \<open>\<^verbatim>\<open>self.name\<close> on a node: the slot's value, \<^verbatim>\<open>AttributeError\<close> for a slot never assigned.\<close>

definition slot :: "(string \<times> pyval) list \<Rightarrow> string \<Rightarrow> error + pyval" where
  "slot s n = (case map_of s n of None \<Rightarrow> Inl AttributeError | Some v \<Rightarrow> Inr v)"

fun getattr :: "pyval \<Rightarrow> string \<Rightarrow> error + pyval" where
  "getattr (Node k s) n = slot s n"
| "getattr (Coord line column) n =
     (if n = ''line'' then Inr line else if n = ''column'' then Inr column
      else Inl AttributeError)"
| "getattr v n = Inl AttributeError"

subsection \<open>Strings\<close>

text \<open>\<^verbatim>\<open>s.split(c)\<close> for a separator of one character: never an empty list.\<close>

fun split_char :: "char \<Rightarrow> string \<Rightarrow> string list" where
  "split_char c [] = [[]]"
| "split_char c (x # xs) =
     (if x = c then [] # split_char c xs
      else (case split_char c xs of [] \<Rightarrow> [[x]] | p # ps \<Rightarrow> (x # p) # ps))"

text \<open>\<^verbatim>\<open>v.split(":")\<close>: only a string has the method.\<close>

fun py_split_colon :: "pyval \<Rightarrow> error + string list" where
  "py_split_colon (PyStr s) = Inr (split_char (CHR '':'') s)"
| "py_split_colon v = Inl AttributeError"

text \<open>\<^verbatim>\<open>xs[0]\<close>.\<close>

fun py_first :: "'a list \<Rightarrow> error + 'a" where
  "py_first [] = Inl IndexError"
| "py_first (x # xs) = Inr x"

section \<open>Construction\<close>

subsection \<open>The call of a constructor\<close>

text \<open>
  A parameter is its name and its default (\<open>None\<close> for a required parameter). A call
  passes positional arguments and keyword arguments; binding follows Python: too many
  positional arguments, an unknown keyword, a parameter given twice and a required
  parameter left out all raise \<^verbatim>\<open>TypeError\<close>. The result lists the values of the
  parameters in the order of the signature.
\<close>

type_synonym param = "string \<times> pyval option"

fun bind_positional :: "param list \<Rightarrow> pyval list \<Rightarrow> error + (string \<times> pyval) list" where
  "bind_positional ps [] = Inr []"
| "bind_positional [] (a # as) = Inl TypeError"
| "bind_positional ((n, d) # ps) (a # as) =
     andthen (bind_positional ps as) (\<lambda>env. Inr ((n, a) # env))"

fun bind_keywords ::
  "param list \<Rightarrow> (string \<times> pyval) list \<Rightarrow> (string \<times> pyval) list \<Rightarrow> error + (string \<times> pyval) list"
where
  "bind_keywords ps env [] = Inr env"
| "bind_keywords ps env ((n, v) # kws) =
     (if map_of ps n = None then Inl TypeError
      else if map_of env n \<noteq> None then Inl TypeError
      else bind_keywords ps (env @ [(n, v)]) kws)"

fun bind_defaults :: "param list \<Rightarrow> (string \<times> pyval) list \<Rightarrow> error + pyval list" where
  "bind_defaults [] env = Inr []"
| "bind_defaults ((n, d) # ps) env =
     andthen
       (case map_of env n of
          Some v \<Rightarrow> Inr v
        | None \<Rightarrow> (case d of Some v \<Rightarrow> Inr v | None \<Rightarrow> Inl TypeError))
       (\<lambda>v. andthen (bind_defaults ps env) (\<lambda>vs. Inr (v # vs)))"

definition bind_args ::
  "param list \<Rightarrow> pyval list \<Rightarrow> (string \<times> pyval) list \<Rightarrow> error + pyval list" where
  "bind_args ps args kwargs =
     andthen (bind_positional ps args) (\<lambda>env.
     andthen (bind_keywords ps env kwargs) (\<lambda>env'.
     bind_defaults ps env'))"

text \<open>The signatures of the \<^verbatim>\<open>__init__\<close> methods, \<^verbatim>\<open>self\<close> left out.\<close>

definition required :: "string \<Rightarrow> param" where
  "required n = (n, None)"

definition optional :: "string \<Rightarrow> pyval \<Rightarrow> param" where
  "optional n d = (n, Some d)"

fun params :: "kind \<Rightarrow> param list" where
  "params Program = [required ''gdecls'', optional ''symtab'' PyNone, optional ''coord'' PyNone]"
| "params Constant = [required ''type'', required ''value'', optional ''coord'' PyNone]"
| "params Cast = [required ''cast'', required ''expression'', optional ''coord'' PyNone]"
| "params Type = [required ''names'', optional ''coord'' PyNone]"
| "params GlobalDecl = [required ''decls'', optional ''coord'' PyNone]"
| "params FuncDecl = [required ''params'', required ''type'', optional ''coord'' PyNone]"
| "params FuncDef = [required ''spec'', required ''decl'', required ''param_decls'',
     required ''body'', optional ''coord'' PyNone]"
| "params FuncCall = [required ''name'', required ''params'', optional ''coord'' PyNone]"
| "params VarDecl = [required ''declname'', required ''type'', optional ''coord'' PyNone]"
| "params Decl = [required ''name'', required ''type'', required ''init'',
     optional ''coord'' PyNone]"
| "params PtrDecl = [required ''type'', optional ''coord'' PyNone]"
| "params ArrayRef = [required ''name'', required ''subscript'', optional ''coord'' PyNone]"
| "params ArrayDecl = [required ''type'', required ''tam'', optional ''coord'' PyNone]"
| "params DeclList = [required ''decls'', optional ''coord'' PyNone]"
| "params InitList = [required ''expression'', optional ''coord'' PyNone]"
| "params ExprList = [required ''expression'', optional ''coord'' PyNone]"
| "params ParamList = [required ''params'', optional ''coord'' PyNone]"
| "params UnaryOp = [required ''op'', required ''expression'', optional ''coord'' PyNone]"
| "params BinaryOp = [required ''op'', required ''left_val'', required ''right_val'',
     optional ''coord'' PyNone]"
| "params Assignment = [required ''op'', required ''value1'', required ''value2'',
     optional ''coord'' PyNone]"
| "params Compound = [required ''block_items'', optional ''coord'' PyNone]"
| "params EmptyStatement = [optional ''coord'' PyNone]"
| "params Break = [optional ''coord'' PyNone]"
| "params Assert = [required ''expression'', optional ''coord'' PyNone]"
| "params For = [required ''initial'', required ''cond'', required ''next'',
     required ''statement'', optional ''coord'' PyNone]"
| "params While = [required ''cond'', required ''statement'', required ''coord'']"
| "params Return = [required ''expression'', optional ''coord'' PyNone]"
| "params ID = [required ''name'', optional ''coord'' PyNone]"
| "params Print = [required ''expression'', optional ''coord'' PyNone]"
| "params Read = [required ''expression'', optional ''coord'' PyNone]"
| "params If' = [required ''cond'', required ''true'', required ''false'',
     optional ''coord'' PyNone]"

subsection \<open>The bodies of the constructors\<close>

text \<open>
  Each body assigns slots of the new object, in the order listed. Only the body of
  \<^verbatim>\<open>Compound\<close> can raise: it calls \<^verbatim>\<open>coord.split(":")\<close>.
\<close>

definition Program_init :: "pyval \<Rightarrow> pyval \<Rightarrow> pyval \<Rightarrow> error + pyval" where
  "Program_init gdecls symtab coord =
     Inr (Node Program [(''gdecls'', gdecls), (''symtab'', PyNone), (''coord'', coord)])"

definition Constant_init :: "pyval \<Rightarrow> pyval \<Rightarrow> pyval \<Rightarrow> error + pyval" where
  "Constant_init type value coord =
     Inr (Node Constant [(''type'', type), (''value'', value), (''coord'', coord),
       (''rawtype'', type), (''gen_location'', PyNone)])"

definition Cast_init :: "pyval \<Rightarrow> pyval \<Rightarrow> pyval \<Rightarrow> error + pyval" where
  "Cast_init cast expression coord =
     Inr (Node Cast [(''cast'', cast), (''expression'', expression), (''coord'', coord),
       (''type'', PyNone), (''gen_location'', PyNone)])"

definition Type_init :: "pyval \<Rightarrow> pyval \<Rightarrow> error + pyval" where
  "Type_init names coord = Inr (Node Type [(''names'', names), (''coord'', coord)])"

definition GlobalDecl_init :: "pyval \<Rightarrow> pyval \<Rightarrow> error + pyval" where
  "GlobalDecl_init decls coord = Inr (Node GlobalDecl [(''decls'', decls), (''coord'', coord)])"

definition FuncDecl_init :: "pyval \<Rightarrow> pyval \<Rightarrow> pyval \<Rightarrow> error + pyval" where
  "FuncDecl_init params' type coord =
     Inr (Node FuncDecl [(''params'', params'), (''type'', type), (''coord'', coord),
       (''gen_location'', PyNone)])"

definition FuncDef_init :: "pyval \<Rightarrow> pyval \<Rightarrow> pyval \<Rightarrow> pyval \<Rightarrow> pyval \<Rightarrow> error + pyval" where
  "FuncDef_init spec decl param_decls body coord =
     Inr (Node FuncDef [(''spec'', spec), (''decl'', decl), (''param_decls'', param_decls),
       (''body'', body), (''coord'', coord), (''decls'', PyNone)])"

definition FuncCall_init :: "pyval \<Rightarrow> pyval \<Rightarrow> pyval \<Rightarrow> error + pyval" where
  "FuncCall_init name params' coord =
     Inr (Node FuncCall [(''name'', name), (''params'', params'), (''coord'', coord),
       (''type'', PyNone), (''gen_location'', PyNone)])"

definition VarDecl_init :: "pyval \<Rightarrow> pyval \<Rightarrow> pyval \<Rightarrow> error + pyval" where
  "VarDecl_init declname type coord =
     Inr (Node VarDecl [(''declname'', declname), (''type'', type), (''coord'', coord),
       (''gen_location'', PyNone)])"

definition Decl_init :: "pyval \<Rightarrow> pyval \<Rightarrow> pyval \<Rightarrow> pyval \<Rightarrow> error + pyval" where
  "Decl_init name type init coord =
     Inr (Node Decl [(''name'', name), (''type'', type), (''init'', init), (''coord'', coord)])"

definition PtrDecl_init :: "pyval \<Rightarrow> pyval \<Rightarrow> error + pyval" where
  "PtrDecl_init type coord = Inr (Node PtrDecl [(''type'', type), (''coord'', coord)])"

definition ArrayRef_init :: "pyval \<Rightarrow> pyval \<Rightarrow> pyval \<Rightarrow> error + pyval" where
  "ArrayRef_init name subscript coord =
     Inr (Node ArrayRef [(''name'', name), (''subscript'', subscript), (''coord'', coord),
       (''bind'', PyNone), (''type'', PyNone), (''model'', PyNone), (''gen_location'', PyNone)])"

definition ArrayDecl_init :: "pyval \<Rightarrow> pyval \<Rightarrow> pyval \<Rightarrow> error + pyval" where
  "ArrayDecl_init type tam coord =
     Inr (Node ArrayDecl [(''type'', type), (''tam'', tam), (''coord'', coord)])"

definition DeclList_init :: "pyval \<Rightarrow> pyval \<Rightarrow> error + pyval" where
  "DeclList_init decls coord = Inr (Node DeclList [(''decls'', decls), (''coord'', coord)])"

definition InitList_init :: "pyval \<Rightarrow> pyval \<Rightarrow> error + pyval" where
  "InitList_init expression coord =
     Inr (Node InitList [(''expression'', expression), (''coord'', coord), (''value'', PyNone),
       (''gen_location'', PyNone)])"

definition ExprList_init :: "pyval \<Rightarrow> pyval \<Rightarrow> error + pyval" where
  "ExprList_init expression coord =
     Inr (Node ExprList [(''expression'', expression), (''coord'', coord)])"

definition ParamList_init :: "pyval \<Rightarrow> pyval \<Rightarrow> error + pyval" where
  "ParamList_init params' coord = Inr (Node ParamList [(''params'', params'), (''coord'', coord)])"

definition UnaryOp_init :: "pyval \<Rightarrow> pyval \<Rightarrow> pyval \<Rightarrow> error + pyval" where
  "UnaryOp_init op expression coord =
     Inr (Node UnaryOp [(''op'', op), (''expression'', expression), (''coord'', coord),
       (''gen_location'', PyNone), (''type'', PyNone)])"

definition BinaryOp_init :: "pyval \<Rightarrow> pyval \<Rightarrow> pyval \<Rightarrow> pyval \<Rightarrow> error + pyval" where
  "BinaryOp_init op left_val right_val coord =
     Inr (Node BinaryOp [(''op'', op), (''left_val'', left_val), (''right_val'', right_val),
       (''coord'', coord), (''type'', PyNone), (''gen_location'', PyNone)])"

definition Assignment_init :: "pyval \<Rightarrow> pyval \<Rightarrow> pyval \<Rightarrow> pyval \<Rightarrow> error + pyval" where
  "Assignment_init op value1 value2 coord =
     Inr (Node Assignment [(''op'', op), (''value1'', value1), (''value2'', value2),
       (''coord'', coord)])"

definition Compound_init :: "pyval \<Rightarrow> pyval \<Rightarrow> error + pyval" where
  "Compound_init block_items coord =
     andthen (py_split_colon coord) (\<lambda>parts.
     andthen (py_first parts) (\<lambda>line.
     Inr (Node Compound [(''block_items'', block_items), (''coord'', PyStr (line @ '':1''))])))"

definition EmptyStatement_init :: "pyval \<Rightarrow> error + pyval" where
  "EmptyStatement_init coord = Inr (Node EmptyStatement [(''coord'', coord)])"

definition Break_init :: "pyval \<Rightarrow> error + pyval" where
  "Break_init coord = Inr (Node Break [(''coord'', coord)])"

definition Assert_init :: "pyval \<Rightarrow> pyval \<Rightarrow> error + pyval" where
  "Assert_init expression coord =
     Inr (Node Assert [(''expression'', expression), (''coord'', coord)])"

definition For_init :: "pyval \<Rightarrow> pyval \<Rightarrow> pyval \<Rightarrow> pyval \<Rightarrow> pyval \<Rightarrow> error + pyval" where
  "For_init initial cond next statement coord =
     Inr (Node For [(''initial'', initial), (''cond'', cond), (''next'', next),
       (''statement'', statement), (''coord'', coord), (''label_exit'', PyNone)])"

definition While_init :: "pyval \<Rightarrow> pyval \<Rightarrow> pyval \<Rightarrow> error + pyval" where
  "While_init cond statement coord =
     Inr (Node While [(''cond'', cond), (''statement'', statement), (''coord'', coord),
       (''label_exit'', PyNone)])"

definition Return_init :: "pyval \<Rightarrow> pyval \<Rightarrow> error + pyval" where
  "Return_init expression coord =
     Inr (Node Return [(''expression'', expression), (''coord'', coord)])"

definition ID_init :: "pyval \<Rightarrow> pyval \<Rightarrow> error + pyval" where
  "ID_init name coord =
     Inr (Node ID [(''name'', name), (''coord'', coord), (''type'', PyNone), (''bind'', PyNone),
       (''scope'', PyNone), (''model'', PyNone), (''gen_location'', PyNone)])"

definition Print_init :: "pyval \<Rightarrow> pyval \<Rightarrow> error + pyval" where
  "Print_init expression coord =
     Inr (Node Print [(''expression'', expression), (''coord'', coord)])"

definition Read_init :: "pyval \<Rightarrow> pyval \<Rightarrow> error + pyval" where
  "Read_init expression coord =
     Inr (Node Read [(''expression'', expression), (''coord'', coord)])"

definition If_init :: "pyval \<Rightarrow> pyval \<Rightarrow> pyval \<Rightarrow> pyval \<Rightarrow> error + pyval" where
  "If_init cond true false coord =
     Inr (Node If' [(''cond'', cond), (''true'', true), (''false'', false), (''coord'', coord)])"

text \<open>The body of a class's constructor on the bound parameter values.\<close>

definition init :: "kind \<Rightarrow> pyval list \<Rightarrow> error + pyval" where
  "init k vs =
     (case k of
        Program \<Rightarrow> (case vs of [a, b, c] \<Rightarrow> Program_init a b c | _ \<Rightarrow> Inl TypeError)
      | Constant \<Rightarrow> (case vs of [a, b, c] \<Rightarrow> Constant_init a b c | _ \<Rightarrow> Inl TypeError)
      | Cast \<Rightarrow> (case vs of [a, b, c] \<Rightarrow> Cast_init a b c | _ \<Rightarrow> Inl TypeError)
      | Type \<Rightarrow> (case vs of [a, c] \<Rightarrow> Type_init a c | _ \<Rightarrow> Inl TypeError)
      | GlobalDecl \<Rightarrow> (case vs of [a, c] \<Rightarrow> GlobalDecl_init a c | _ \<Rightarrow> Inl TypeError)
      | FuncDecl \<Rightarrow> (case vs of [a, b, c] \<Rightarrow> FuncDecl_init a b c | _ \<Rightarrow> Inl TypeError)
      | FuncDef \<Rightarrow> (case vs of [a, b, c, d, e] \<Rightarrow> FuncDef_init a b c d e | _ \<Rightarrow> Inl TypeError)
      | FuncCall \<Rightarrow> (case vs of [a, b, c] \<Rightarrow> FuncCall_init a b c | _ \<Rightarrow> Inl TypeError)
      | VarDecl \<Rightarrow> (case vs of [a, b, c] \<Rightarrow> VarDecl_init a b c | _ \<Rightarrow> Inl TypeError)
      | Decl \<Rightarrow> (case vs of [a, b, c, d] \<Rightarrow> Decl_init a b c d | _ \<Rightarrow> Inl TypeError)
      | PtrDecl \<Rightarrow> (case vs of [a, c] \<Rightarrow> PtrDecl_init a c | _ \<Rightarrow> Inl TypeError)
      | ArrayRef \<Rightarrow> (case vs of [a, b, c] \<Rightarrow> ArrayRef_init a b c | _ \<Rightarrow> Inl TypeError)
      | ArrayDecl \<Rightarrow> (case vs of [a, b, c] \<Rightarrow> ArrayDecl_init a b c | _ \<Rightarrow> Inl TypeError)
      | DeclList \<Rightarrow> (case vs of [a, c] \<Rightarrow> DeclList_init a c | _ \<Rightarrow> Inl TypeError)
      | InitList \<Rightarrow> (case vs of [a, c] \<Rightarrow> InitList_init a c | _ \<Rightarrow> Inl TypeError)
      | ExprList \<Rightarrow> (case vs of [a, c] \<Rightarrow> ExprList_init a c | _ \<Rightarrow> Inl TypeError)
      | ParamList \<Rightarrow> (case vs of [a, c] \<Rightarrow> ParamList_init a c | _ \<Rightarrow> Inl TypeError)
      | UnaryOp \<Rightarrow> (case vs of [a, b, c] \<Rightarrow> UnaryOp_init a b c | _ \<Rightarrow> Inl TypeError)
      | BinaryOp \<Rightarrow> (case vs of [a, b, c, d] \<Rightarrow> BinaryOp_init a b c d | _ \<Rightarrow> Inl TypeError)
      | Assignment \<Rightarrow> (case vs of [a, b, c, d] \<Rightarrow> Assignment_init a b c d | _ \<Rightarrow> Inl TypeError)
      | Compound \<Rightarrow> (case vs of [a, c] \<Rightarrow> Compound_init a c | _ \<Rightarrow> Inl TypeError)
      | EmptyStatement \<Rightarrow> (case vs of [c] \<Rightarrow> EmptyStatement_init c | _ \<Rightarrow> Inl TypeError)
      | Break \<Rightarrow> (case vs of [c] \<Rightarrow> Break_init c | _ \<Rightarrow> Inl TypeError)
      | Assert \<Rightarrow> (case vs of [a, c] \<Rightarrow> Assert_init a c | _ \<Rightarrow> Inl TypeError)
      | For \<Rightarrow> (case vs of [a, b, c, d, e] \<Rightarrow> For_init a b c d e | _ \<Rightarrow> Inl TypeError)
      | While \<Rightarrow> (case vs of [a, b, c] \<Rightarrow> While_init a b c | _ \<Rightarrow> Inl TypeError)
      | Return \<Rightarrow> (case vs of [a, c] \<Rightarrow> Return_init a c | _ \<Rightarrow> Inl TypeError)
      | ID \<Rightarrow> (case vs of [a, c] \<Rightarrow> ID_init a c | _ \<Rightarrow> Inl TypeError)
      | Print \<Rightarrow> (case vs of [a, c] \<Rightarrow> Print_init a c | _ \<Rightarrow> Inl TypeError)
      | Read \<Rightarrow> (case vs of [a, c] \<Rightarrow> Read_init a c | _ \<Rightarrow> Inl TypeError)
      | If' \<Rightarrow> (case vs of [a, b, c, d] \<Rightarrow> If_init a b c d | _ \<Rightarrow> Inl TypeError))"

text \<open>\<^verbatim>\<open>K(*args, **kwargs)\<close>: bind the arguments, then run the body.\<close>

definition construct :: "kind \<Rightarrow> pyval list \<Rightarrow> (string \<times> pyval) list \<Rightarrow> error + pyval" where
  "construct k args kwargs = andthen (bind_args (params k) args kwargs) (init k)"

section \<open>Traversal\<close>

subsection \<open>Truth values and iteration\<close>

text \<open>
  The truth value of an object: no class of the module defines \<^verbatim>\<open>__bool__\<close> or
  \<^verbatim>\<open>__len__\<close>, so every node and every \<^verbatim>\<open>Coord\<close> is true.
\<close>

fun truthy :: "pyval \<Rightarrow> bool" where
  "truthy PyNone = False"
| "truthy (PyBool b) = b"
| "truthy (PyInt i) = (i \<noteq> 0)"
| "truthy (PyStr s) = (s \<noteq> [])"
| "truthy (PyList xs) = (xs \<noteq> [])"
| "truthy (Coord line column) = True"
| "truthy (Node k s) = True"

text \<open>\<^verbatim>\<open>a or b\<close>.\<close>

definition py_or :: "pyval \<Rightarrow> pyval \<Rightarrow> pyval" where
  "py_or a b = (if truthy a then a else b)"

text \<open>
  Running an iterator to its end: the values it yields, in order, and the exception that
  ends the run, if one does. A generator raises where its body raises, after the values
  already yielded.
\<close>

type_synonym iteration = "pyval list \<times> error option"

definition raises :: "error \<Rightarrow> iteration" where
  "raises e = ([], Some e)"

text \<open>One part of a generator body after another.\<close>

fun then_iter :: "iteration \<Rightarrow> iteration \<Rightarrow> iteration" where
  "then_iter (xs, Some e) r = (xs, Some e)"
| "then_iter (xs, None) (ys, r) = (xs @ ys, r)"

text \<open>\<^verbatim>\<open>if self.n is not None: yield self.n\<close>.\<close>

definition yield_present :: "(string \<times> pyval) list \<Rightarrow> string \<Rightarrow> iteration" where
  "yield_present s n =
     (case slot s n of Inl e \<Rightarrow> raises e
      | Inr v \<Rightarrow> (if v = PyNone then ([], None) else ([v], None)))"

text \<open>A value stored in a slot is smaller than the node: iteration terminates.\<close>

lemma slot_size: "slot s n = Inr v \<Longrightarrow> size v < size (Node k s)"
  apply (induction s) apply (auto simp: slot_def split: option.splits if_splits)
  done

lemma or_size: "slot s n = Inr v \<Longrightarrow> size (py_or v (PyList [])) < size (Node k s)"
  apply (frule slot_size[where k=k])
  apply (cases s) apply (auto simp: py_or_def slot_def)
  done

text \<open>
  \<^verbatim>\<open>iter(v)\<close> run to its end. A list yields its elements and a string its characters;
  \<^verbatim>\<open>None\<close>, a boolean, an integer and a \<^verbatim>\<open>Coord\<close> are not iterable. A node is iterated
  by the \<^verbatim>\<open>__iter__\<close> of its class (\<open>node_iter\<close>). The \<^verbatim>\<open>__iter__\<close> of \<^verbatim>\<open>Constant\<close>,
  \<^verbatim>\<open>Type\<close>, \<^verbatim>\<open>EmptyStatement\<close>, \<^verbatim>\<open>Break\<close> and \<^verbatim>\<open>ID\<close> is a plain \<^verbatim>\<open>return\<close> with no
  \<^verbatim>\<open>yield\<close>: it returns \<^verbatim>\<open>None\<close>, and \<^verbatim>\<open>iter\<close> raises \<^verbatim>\<open>TypeError\<close>. The loop of
  \<^verbatim>\<open>DeclList.__iter__\<close> yields the name \<^verbatim>\<open>child\<close>, which is bound nowhere: its first
  round raises \<^verbatim>\<open>NameError\<close>.
\<close>

function py_iter :: "pyval \<Rightarrow> iteration"
  and node_iter :: "kind \<Rightarrow> (string \<times> pyval) list \<Rightarrow> iteration" where
  "py_iter PyNone = raises TypeError"
| "py_iter (PyBool b) = raises TypeError"
| "py_iter (PyInt i) = raises TypeError"
| "py_iter (PyStr str) = (map (\<lambda>c. PyStr [c]) str, None)"
| "py_iter (PyList xs) = (xs, None)"
| "py_iter (Coord line column) = raises TypeError"
| "py_iter (Node k s) = node_iter k s"
| "node_iter Program s =
     (case slot s ''gdecls'' of Inl e \<Rightarrow> raises e
      | Inr v \<Rightarrow> py_iter (py_or v (PyList [])))"
| "node_iter Constant s = raises TypeError"
| "node_iter Cast s = then_iter (yield_present s ''cast'') (yield_present s ''expression'')"
| "node_iter Type s = raises TypeError"
| "node_iter GlobalDecl s =
     (case slot s ''decls'' of Inl e \<Rightarrow> raises e
      | Inr v \<Rightarrow> py_iter (py_or v (PyList [])))"
| "node_iter FuncDecl s = then_iter (yield_present s ''params'') (yield_present s ''type'')"
| "node_iter FuncDef s =
     then_iter (yield_present s ''spec'')
    (then_iter (yield_present s ''decl'')
    (then_iter (yield_present s ''body'')
     (case slot s ''param_decls'' of Inl e \<Rightarrow> raises e
      | Inr v \<Rightarrow> py_iter (py_or v (PyList [])))))"
| "node_iter FuncCall s = then_iter (yield_present s ''name'') (yield_present s ''params'')"
| "node_iter VarDecl s = yield_present s ''type''"
| "node_iter Decl s = then_iter (yield_present s ''type'') (yield_present s ''init'')"
| "node_iter PtrDecl s = yield_present s ''type''"
| "node_iter ArrayRef s = then_iter (yield_present s ''name'') (yield_present s ''subscript'')"
| "node_iter ArrayDecl s = then_iter (yield_present s ''type'') (yield_present s ''tam'')"
| "node_iter DeclList s =
     (case slot s ''decls'' of Inl e \<Rightarrow> raises e
      | Inr v \<Rightarrow>
          (case py_iter (py_or v (PyList [])) of
             ([], r) \<Rightarrow> ([], r)
           | (x # xs, r) \<Rightarrow> raises NameError))"
| "node_iter InitList s =
     (case slot s ''expression'' of Inl e \<Rightarrow> raises e
      | Inr v \<Rightarrow> py_iter (py_or v (PyList [])))"
| "node_iter ExprList s =
     (case slot s ''expression'' of Inl e \<Rightarrow> raises e
      | Inr v \<Rightarrow> py_iter (py_or v (PyList [])))"
| "node_iter ParamList s =
     (case slot s ''params'' of Inl e \<Rightarrow> raises e
      | Inr v \<Rightarrow> py_iter (py_or v (PyList [])))"
| "node_iter UnaryOp s = yield_present s ''expression''"
| "node_iter BinaryOp s = then_iter (yield_present s ''left_val'') (yield_present s ''right_val'')"
| "node_iter Assignment s = then_iter (yield_present s ''value1'') (yield_present s ''value2'')"
| "node_iter Compound s =
     (case slot s ''block_items'' of Inl e \<Rightarrow> raises e
      | Inr v \<Rightarrow> py_iter (py_or v (PyList [])))"
| "node_iter EmptyStatement s = raises TypeError"
| "node_iter Break s = raises TypeError"
| "node_iter Assert s = yield_present s ''expression''"
| "node_iter For s =
     then_iter (yield_present s ''initial'')
    (then_iter (yield_present s ''cond'')
    (then_iter (yield_present s ''next'') (yield_present s ''statement'')))"
| "node_iter While s = then_iter (yield_present s ''cond'') (yield_present s ''statement'')"
| "node_iter Return s = yield_present s ''expression''"
| "node_iter ID s = raises TypeError"
| "node_iter Print s =
     (case slot s ''expression'' of Inl e \<Rightarrow> raises e
      | Inr v \<Rightarrow> py_iter (py_or v (PyList [])))"
| "node_iter Read s =
     (case slot s ''expression'' of Inl e \<Rightarrow> raises e
      | Inr v \<Rightarrow> py_iter (py_or v (PyList [])))"
| "node_iter If' s =
     then_iter (yield_present s ''cond'')
    (then_iter (yield_present s ''true'') (yield_present s ''false''))"
  by pat_completeness auto

termination
  apply (relation "measure (\<lambda>x. case x of Inl v \<Rightarrow> 2 * size v | Inr (k, s) \<Rightarrow> 2 * size (Node k s) - 1)")
  apply simp
  apply simp
  apply (simp_all only: in_measure sum.case prod.case)
  apply (auto dest!: or_size)
  done


subsection \<open>The method \<^verbatim>\<open>children\<close>\<close>

text \<open>\<^verbatim>\<open>"%d" % n\<close> for a natural number.\<close>

fun dec :: "nat \<Rightarrow> string" where
  "dec n = (if n < 10 then [''0123456789'' ! n] else dec (n div 10) @ [''0123456789'' ! (n mod 10)])"

declare dec.simps [simp del]

text \<open>A \<^verbatim>\<open>for\<close> loop whose body cannot raise, over an iteration: all its values, or its exception.\<close>

definition for_all :: "iteration \<Rightarrow> error + pyval list" where
  "for_all it = (case it of (xs, None) \<Rightarrow> Inr xs | (xs, Some e) \<Rightarrow> Inl e)"

text \<open>The parts of a method that appends to \<^verbatim>\<open>nodelist\<close>, one after another.\<close>

fun appends :: "(error + 'a list) list \<Rightarrow> error + 'a list" where
  "appends [] = Inr []"
| "appends (m # ms) = andthen m (\<lambda>xs. andthen (appends ms) (\<lambda>ys. Inr (xs @ ys)))"

text \<open>\<^verbatim>\<open>if self.n is not None: nodelist.append(("n", self.n))\<close>.\<close>

definition child_present :: "(string \<times> pyval) list \<Rightarrow> string \<Rightarrow> error + (string \<times> pyval) list" where
  "child_present s n = andthen (slot s n) (\<lambda>v. Inr (if v = PyNone then [] else [(n, v)]))"

text \<open>\<^verbatim>\<open>("n[%d]" % i, child)\<close>.\<close>

definition indexed :: "string \<Rightarrow> nat \<times> pyval \<Rightarrow> string \<times> pyval" where
  "indexed n ic = (n @ ''['' @ dec (fst ic) @ '']'', snd ic)"

text \<open>\<^verbatim>\<open>for i, child in enumerate(self.n or []): nodelist.append(("n[%d]" % i, child))\<close>.\<close>

definition child_seq :: "(string \<times> pyval) list \<Rightarrow> string \<Rightarrow> error + (string \<times> pyval) list" where
  "child_seq s n =
     andthen (slot s n) (\<lambda>v.
     andthen (for_all (py_iter (py_or v (PyList [])))) (\<lambda>xs.
     Inr (map (indexed n) (enumerate 0 xs))))"

text \<open>The same loop with the test \<^verbatim>\<open>if child is not None\<close> of \<^verbatim>\<open>Print.children\<close>.\<close>

definition child_seq_present :: "(string \<times> pyval) list \<Rightarrow> string \<Rightarrow> error + (string \<times> pyval) list" where
  "child_seq_present s n =
     andthen (slot s n) (\<lambda>v.
     andthen (for_all (py_iter (py_or v (PyList [])))) (\<lambda>xs.
     Inr (map (indexed n) (filter (\<lambda>ic. snd ic \<noteq> PyNone) (enumerate 0 xs)))))"

text \<open>The method \<^verbatim>\<open>children\<close> of each class; the tuple it returns is a list here.\<close>

fun children_of :: "kind \<Rightarrow> (string \<times> pyval) list \<Rightarrow> error + (string \<times> pyval) list" where
  "children_of Program s = child_seq s ''gdecls''"
| "children_of Constant s = Inr []"
| "children_of Cast s = appends [child_present s ''cast'', child_present s ''expression'']"
| "children_of Type s = Inr []"
| "children_of GlobalDecl s = child_seq s ''decls''"
| "children_of FuncDecl s = appends [child_present s ''params'', child_present s ''type'']"
| "children_of FuncDef s =
     appends [child_present s ''spec'', child_present s ''decl'', child_present s ''body'',
       child_seq s ''param_decls'']"
| "children_of FuncCall s = appends [child_present s ''name'', child_present s ''params'']"
| "children_of VarDecl s = appends [child_present s ''type'']"
| "children_of Decl s = appends [child_present s ''type'', child_present s ''init'']"
| "children_of PtrDecl s = appends [child_present s ''type'']"
| "children_of ArrayRef s = appends [child_present s ''name'', child_present s ''subscript'']"
| "children_of ArrayDecl s = appends [child_present s ''type'', child_present s ''tam'']"
| "children_of DeclList s = child_seq s ''decls''"
| "children_of InitList s = child_seq s ''expression''"
| "children_of ExprList s = child_seq s ''expression''"
| "children_of ParamList s = child_seq s ''params''"
| "children_of UnaryOp s = appends [child_present s ''expression'']"
| "children_of BinaryOp s = appends [child_present s ''left_val'', child_present s ''right_val'']"
| "children_of Assignment s = appends [child_present s ''value1'', child_present s ''value2'']"
| "children_of Compound s = child_seq s ''block_items''"
| "children_of EmptyStatement s = Inr []"
| "children_of Break s = Inr []"
| "children_of Assert s = appends [child_present s ''expression'']"
| "children_of For s =
     appends [child_present s ''initial'', child_present s ''cond'', child_present s ''next'',
       child_present s ''statement'']"
| "children_of While s = appends [child_present s ''cond'', child_present s ''statement'']"
| "children_of Return s = appends [child_present s ''expression'']"
| "children_of ID s = Inr []"
| "children_of Print s = child_seq_present s ''expression''"
| "children_of Read s = child_seq s ''expression''"
| "children_of If' s =
     appends [child_present s ''cond'', child_present s ''true'', child_present s ''false'']"

fun children :: "pyval \<Rightarrow> error + (string \<times> pyval) list" where
  "children (Node k s) = children_of k s"
| "children v = Inl AttributeError"


section \<open>The representation formatter\<close>

text \<open>
  The value of \<^verbatim>\<open>__slots__\<close> in each class. \<^verbatim>\<open>EmptyStatement\<close> and \<^verbatim>\<open>Break\<close> write
  \<^verbatim>\<open>("coord")\<close>, which is the string \<^verbatim>\<open>"coord"\<close> and not a tuple: it declares the one slot
  \<^verbatim>\<open>coord\<close>, but indexing and iterating it go through its characters.
\<close>

datatype slots_decl = SlotTuple "string list" | SlotString string

fun slots :: "kind \<Rightarrow> slots_decl" where
  "slots Program = SlotTuple [''gdecls'', ''symtab'', ''coord'']"
| "slots Constant = SlotTuple [''type'', ''value'', ''coord'', ''rawtype'', ''gen_location'']"
| "slots Cast = SlotTuple [''cast'', ''expression'', ''coord'', ''type'', ''gen_location'']"
| "slots Type = SlotTuple [''names'', ''coord'']"
| "slots GlobalDecl = SlotTuple [''decls'', ''coord'']"
| "slots FuncDecl = SlotTuple [''params'', ''type'', ''coord'', ''gen_location'']"
| "slots FuncDef = SlotTuple [''spec'', ''decl'', ''param_decls'', ''body'', ''coord'', ''decls'']"
| "slots FuncCall = SlotTuple [''name'', ''params'', ''coord'', ''type'', ''gen_location'']"
| "slots VarDecl = SlotTuple [''declname'', ''type'', ''coord'', ''gen_location'']"
| "slots Decl = SlotTuple [''name'', ''type'', ''init'', ''coord'']"
| "slots PtrDecl = SlotTuple [''type'', ''coord'']"
| "slots ArrayRef = SlotTuple [''name'', ''subscript'', ''coord'', ''bind'', ''type'', ''model'',
     ''gen_location'']"
| "slots ArrayDecl = SlotTuple [''type'', ''tam'', ''coord'']"
| "slots DeclList = SlotTuple [''decls'', ''coord'']"
| "slots InitList = SlotTuple [''expression'', ''coord'', ''value'', ''gen_location'']"
| "slots ExprList = SlotTuple [''expression'', ''coord'']"
| "slots ParamList = SlotTuple [''params'', ''coord'']"
| "slots UnaryOp = SlotTuple [''op'', ''expression'', ''coord'', ''gen_location'', ''type'']"
| "slots BinaryOp = SlotTuple [''op'', ''left_val'', ''right_val'', ''coord'', ''type'',
     ''gen_location'']"
| "slots Assignment = SlotTuple [''op'', ''value1'', ''value2'', ''coord'']"
| "slots Compound = SlotTuple [''block_items'', ''coord'']"
| "slots EmptyStatement = SlotString ''coord''"
| "slots Break = SlotString ''coord''"
| "slots Assert = SlotTuple [''expression'', ''coord'']"
| "slots For = SlotTuple [''initial'', ''cond'', ''next'', ''statement'', ''coord'', ''label_exit'']"
| "slots While = SlotTuple [''cond'', ''statement'', ''coord'', ''label_exit'']"
| "slots Return = SlotTuple [''expression'', ''coord'']"
| "slots ID = SlotTuple [''name'', ''coord'', ''type'', ''bind'', ''scope'', ''gen_location'',
     ''model'']"
| "slots Print = SlotTuple [''expression'', ''coord'']"
| "slots Read = SlotTuple [''expression'', ''coord'']"
| "slots If' = SlotTuple [''cond'', ''true'', ''false'', ''coord'']"

text \<open>The slots a declaration reserves.\<close>

fun slot_names :: "slots_decl \<Rightarrow> string list" where
  "slot_names (SlotTuple ns) = ns"
| "slot_names (SlotString n) = [n]"

text \<open>\<^verbatim>\<open>self.__slots__[:-1]\<close>, as the \<^verbatim>\<open>for\<close> loop of \<^verbatim>\<open>__repr__\<close> goes through it.\<close>

fun all_but_last :: "slots_decl \<Rightarrow> string list" where
  "all_but_last (SlotTuple ns) = butlast ns"
| "all_but_last (SlotString n) = map (\<lambda>c. [c]) (butlast n)"

text \<open>\<^verbatim>\<open>self.__class__.__name__\<close>.\<close>

fun class_name :: "kind \<Rightarrow> string" where
  "class_name Program = ''Program''"
| "class_name Constant = ''Constant''"
| "class_name Cast = ''Cast''"
| "class_name Type = ''Type''"
| "class_name GlobalDecl = ''GlobalDecl''"
| "class_name FuncDecl = ''FuncDecl''"
| "class_name FuncDef = ''FuncDef''"
| "class_name FuncCall = ''FuncCall''"
| "class_name VarDecl = ''VarDecl''"
| "class_name Decl = ''Decl''"
| "class_name PtrDecl = ''PtrDecl''"
| "class_name ArrayRef = ''ArrayRef''"
| "class_name ArrayDecl = ''ArrayDecl''"
| "class_name DeclList = ''DeclList''"
| "class_name InitList = ''InitList''"
| "class_name ExprList = ''ExprList''"
| "class_name ParamList = ''ParamList''"
| "class_name UnaryOp = ''UnaryOp''"
| "class_name BinaryOp = ''BinaryOp''"
| "class_name Assignment = ''Assignment''"
| "class_name Compound = ''Compound''"
| "class_name EmptyStatement = ''EmptyStatement''"
| "class_name Break = ''Break''"
| "class_name Assert = ''Assert''"
| "class_name For = ''For''"
| "class_name While = ''While''"
| "class_name Return = ''Return''"
| "class_name ID = ''ID''"
| "class_name Print = ''Print''"
| "class_name Read = ''Read''"
| "class_name If' = ''If''"

subsection \<open>Strings and their representation\<close>

text \<open>The newline character.\<close>

definition nl :: char where
  "nl = CHR 0x0A"

text \<open>\<^verbatim>\<open>str.replace('\n', new)\<close>.\<close>

definition replace_nl :: "string \<Rightarrow> string \<Rightarrow> string" where
  "replace_nl new str = concat (map (\<lambda>c. if c = nl then new else [c]) str)"

text \<open>\<^verbatim>\<open>sep.join(strings)\<close>.\<close>

fun join :: "string \<Rightarrow> string list \<Rightarrow> string" where
  "join sep [] = []"
| "join sep [x] = x"
| "join sep (x # y # ys) = x @ sep @ join sep (y # ys)"

text \<open>\<^verbatim>\<open>' ' * n\<close>.\<close>

definition spaces :: "nat \<Rightarrow> string" where
  "spaces n = replicate n CHR '' ''"

text \<open>
  \<^verbatim>\<open>repr\<close> of a string, for characters with codes below 256: the string in single quotes,
  or in double quotes when it holds a single quote and no double quote; the quote and the
  backslash escaped, tab, newline and carriage return as \<^verbatim>\<open>\t\<close>, \<^verbatim>\<open>\n\<close>, \<^verbatim>\<open>\r\<close>, and any
  other character that is not printable as \<^verbatim>\<open>\xhh\<close>.
\<close>

definition printable :: "char \<Rightarrow> bool" where
  "printable c = ((32 \<le> (of_char c :: nat) \<and> (of_char c :: nat) < 127)
     \<or> (161 \<le> (of_char c :: nat) \<and> (of_char c :: nat) \<noteq> 173))"

definition hex2 :: "nat \<Rightarrow> string" where
  "hex2 n = [''0123456789abcdef'' ! (n div 16), ''0123456789abcdef'' ! (n mod 16)]"

definition escape_char :: "char \<Rightarrow> char \<Rightarrow> string" where
  "escape_char q c =
     (if c = q \<or> c = CHR 0x5C then [CHR 0x5C, c]
      else if c = CHR 0x09 then [CHR 0x5C, CHR ''t'']
      else if c = CHR 0x0A then [CHR 0x5C, CHR ''n'']
      else if c = CHR 0x0D then [CHR 0x5C, CHR ''r'']
      else if printable c then [c]
      else [CHR 0x5C, CHR ''x''] @ hex2 (of_char c))"

definition str_repr :: "string \<Rightarrow> string" where
  "str_repr str =
     (let q = (if CHR 0x27 \<in> set str \<and> CHR 0x22 \<notin> set str then CHR 0x22 else CHR 0x27)
      in [q] @ concat (map (escape_char q) str) @ [q])"

text \<open>\<^verbatim>\<open>repr\<close> of an integer.\<close>

definition int_repr :: "int \<Rightarrow> string" where
  "int_repr i = (if i < 0 then ''-'' @ dec (nat (- i)) else dec (nat i))"

subsection \<open>\<^verbatim>\<open>_repr\<close> and \<^verbatim>\<open>Node.__repr__\<close>\<close>

lemma andthen_cong [fundef_cong]:
  "m = m' \<Longrightarrow> (\<And>x. m' = Inr x \<Longrightarrow> f x = f' x) \<Longrightarrow> andthen m f = andthen m' f'"
  by (auto simp: andthen_def split: sum.splits)

lemma slot_size_list [termination_simp]:
  "slot s n = Inr v \<Longrightarrow> size v < size_list (size_prod (\<lambda>x. 0) size) s"
  by (induction s) (auto simp: slot_def split: option.splits if_splits)

text \<open>
  \<open>repr'\<close> is the module's function \<^verbatim>\<open>_repr\<close>: a list is rendered between \<^verbatim>\<open>[\<close> and a
  newline followed by \<^verbatim>\<open>]\<close>, its elements joined by comma, newline, space, each with its
  newlines followed by one more space; anything else goes to the builtin \<^verbatim>\<open>repr\<close>.
  \<open>py_repr\<close> is the builtin \<^verbatim>\<open>repr\<close>; on a node it is \<^verbatim>\<open>Node.__repr__\<close>, whose loop
  \<open>Node_repr_loop\<close> carries the variables \<^verbatim>\<open>result\<close>, \<^verbatim>\<open>indent\<close> and \<^verbatim>\<open>separator\<close>. The
  builtin \<^verbatim>\<open>repr\<close> of a \<^verbatim>\<open>Coord\<close>, which defines no \<^verbatim>\<open>__repr__\<close>, names the class and the
  address of the object; the address is left out here.
\<close>

function (sequential) repr' :: "pyval \<Rightarrow> error + string"
  and repr_elements :: "pyval list \<Rightarrow> error + string list"
  and py_repr :: "pyval \<Rightarrow> error + string"
  and py_repr_elements :: "pyval list \<Rightarrow> error + string list"
  and Node_repr_loop ::
    "kind \<Rightarrow> (string \<times> pyval) list \<Rightarrow> string list \<Rightarrow> string \<Rightarrow> string \<Rightarrow> string \<Rightarrow> error + string"
where
  "repr' (PyList xs) =
     andthen (repr_elements xs) (\<lambda>rs. Inr (''['' @ join ([CHR '','', nl, CHR '' '']) rs @ [nl, CHR '']'']))"
| "repr' v = py_repr v"
| "repr_elements [] = Inr []"
| "repr_elements (e # es) =
     andthen (repr' e) (\<lambda>r.
     andthen (repr_elements es) (\<lambda>rs. Inr (replace_nl [nl, CHR '' ''] r # rs)))"
| "py_repr PyNone = Inr ''None''"
| "py_repr (PyBool b) = Inr (if b then ''True'' else ''False'')"
| "py_repr (PyInt i) = Inr (int_repr i)"
| "py_repr (PyStr str) = Inr (str_repr str)"
| "py_repr (PyList xs) = andthen (py_repr_elements xs) (\<lambda>rs. Inr (''['' @ join '', '' rs @ '']''))"
| "py_repr (Coord line column) = Inr ''<ast.Coord object>''"
| "py_repr (Node k s) =
     andthen (Node_repr_loop k s (all_but_last (slots k)) (class_name k @ ''('') '''' '''')
       (\<lambda>result. Inr (result @ '')''))"
| "py_repr_elements [] = Inr []"
| "py_repr_elements (e # es) =
     andthen (py_repr e) (\<lambda>r. andthen (py_repr_elements es) (\<lambda>rs. Inr (r # rs)))"
| "Node_repr_loop k s [] result indent separator = Inr result"
| "Node_repr_loop k s (name # names) result indent separator =
     andthen (slot s name) (\<lambda>v.
     andthen (repr' v) (\<lambda>r.
     Node_repr_loop k s names
       (result @ separator @ indent @ name @ ''=''
          @ replace_nl ([nl] @ ''  '' @ spaces (length name + length (class_name k))) r)
       ([nl] @ '' '' @ spaces (length (class_name k)))
       '',''))"
  by pat_completeness auto
termination
  apply (relation "inv_image (less_than <*lex*> less_than)
    (\<lambda>x. case x of
       Inl (Inl v) \<Rightarrow> (2 * size v + 1, Suc 0)
     | Inl (Inr xs) \<Rightarrow> (2 * size_list size xs, 0)
     | Inr (Inl v) \<Rightarrow> (2 * size v + 1, 0)
     | Inr (Inr (Inl xs)) \<Rightarrow> (2 * size_list size xs, 0)
     | Inr (Inr (Inr (k, s, names, st)))
         \<Rightarrow> (2 * size_list (size_prod (\<lambda>x. 0) size) s, length names))")
  apply (intro wf_inv_image wf_lex_prod wf_less_than)
  apply (auto dest!: slot_size_list)
  done

section \<open>The tree printer\<close>

text \<open>
  \<^verbatim>\<open>'%s' % v\<close>, that is \<^verbatim>\<open>str(v)\<close>: a string is itself, a \<^verbatim>\<open>Coord\<close> goes through
  \<^verbatim>\<open>Coord.__str__\<close>, empty when its line is false and \<^verbatim>\<open>"   @ line:column"\<close> otherwise, and
  every other value through \<^verbatim>\<open>repr\<close>.
\<close>

fun py_str :: "pyval \<Rightarrow> error + string" where
  "py_str (PyStr str) = Inr str"
| "py_str (Coord line column) =
     (if truthy line
      then andthen (py_str line) (\<lambda>l. andthen (py_str column) (\<lambda>c. Inr (''   @ '' @ l @ '':'' @ c)))
      else Inr '''')"
| "py_str v = py_repr v"

text \<open>The class attribute \<^verbatim>\<open>attr_names\<close>.\<close>

fun attr_names :: "kind \<Rightarrow> string list" where
  "attr_names Constant = [''type'', ''value'']"
| "attr_names Type = [''names'']"
| "attr_names Decl = [''name'']"
| "attr_names UnaryOp = [''op'']"
| "attr_names BinaryOp = [''op'']"
| "attr_names Assignment = [''op'']"
| "attr_names ID = [''name'']"
| "attr_names k = []"

text \<open>
  \<^verbatim>\<open>nvlist = [(n, getattr(self, n)) for n in self.attr_names if getattr(self, n) is not None]\<close>
\<close>

fun nvlist :: "(string \<times> pyval) list \<Rightarrow> string list \<Rightarrow> error + (string \<times> pyval) list" where
  "nvlist s [] = Inr []"
| "nvlist s (n # ns) =
     andthen (slot s n) (\<lambda>v.
     andthen (nvlist s ns) (\<lambda>nvs. Inr (if v \<noteq> PyNone then (n, v) # nvs else nvs)))"

text \<open>\<^verbatim>\<open>vlist = [getattr(self, n) for n in self.attr_names]\<close>\<close>

fun vlist :: "(string \<times> pyval) list \<Rightarrow> string list \<Rightarrow> error + pyval list" where
  "vlist s [] = Inr []"
| "vlist s (n # ns) = andthen (slot s n) (\<lambda>v. andthen (vlist s ns) (\<lambda>vs. Inr (v # vs)))"

text \<open>\<^verbatim>\<open>'%s=%s' % nv for nv in nvlist\<close> and \<^verbatim>\<open>'%s' % v for v in vlist\<close>.\<close>

fun format_nv :: "(string \<times> pyval) list \<Rightarrow> error + string list" where
  "format_nv [] = Inr []"
| "format_nv ((n, v) # nvs) =
     andthen (py_str v) (\<lambda>t. andthen (format_nv nvs) (\<lambda>ts. Inr ((n @ ''='' @ t) # ts)))"

fun format_v :: "pyval list \<Rightarrow> error + string list" where
  "format_v [] = Inr []"
| "format_v (v # vs) = andthen (py_str v) (\<lambda>t. andthen (format_v vs) (\<lambda>ts. Inr (t # ts)))"

text \<open>The text \<^verbatim>\<open>attrstr\<close> of the attribute summary, for the flag \<^verbatim>\<open>attrnames\<close>.\<close>

definition attrstr :: "bool \<Rightarrow> kind \<Rightarrow> (string \<times> pyval) list \<Rightarrow> error + string" where
  "attrstr attrnames k s =
     (if attrnames
      then andthen (nvlist s (attr_names k)) (\<lambda>nvs.
           andthen (format_nv nvs) (\<lambda>ts. Inr (join '', '' ts)))
      else andthen (vlist s (attr_names k)) (\<lambda>vs.
           andthen (format_v vs) (\<lambda>ts. Inr (join '', '' ts))))"

text \<open>
  The first text \<^verbatim>\<open>show\<close> writes: the lead of \<^verbatim>\<open>offset\<close> spaces, the class name, the name of
  the node in its parent when \<^verbatim>\<open>nodenames\<close> is set and the name is given.
\<close>

definition heading :: "kind \<Rightarrow> int \<Rightarrow> bool \<Rightarrow> string option \<Rightarrow> string" where
  "heading k offset nodenames my_node_name =
     (case my_node_name of
        Some name \<Rightarrow>
          (if nodenames then spaces (nat offset) @ class_name k @ '' <'' @ name @ ''>: ''
           else spaces (nat offset) @ class_name k @ '': '')
      | None \<Rightarrow> spaces (nat offset) @ class_name k @ '': '')"

text \<open>What \<^verbatim>\<open>show\<close> writes under \<^verbatim>\<open>if self.attr_names:\<close>.\<close>

definition attr_part :: "bool \<Rightarrow> kind \<Rightarrow> (string \<times> pyval) list \<Rightarrow> error + string" where
  "attr_part attrnames k s = (if attr_names k \<noteq> [] then attrstr attrnames k s else Inr '''')"

text \<open>What \<^verbatim>\<open>show\<close> writes under \<^verbatim>\<open>if showcoord:\<close>.\<close>

definition coord_part :: "bool \<Rightarrow> (string \<times> pyval) list \<Rightarrow> error + string" where
  "coord_part showcoord s =
     (if showcoord
      then andthen (slot s ''coord'') (\<lambda>c. if truthy c then py_str c else Inr '''')
      else Inr '''')"

subsection \<open>The children of a node are smaller than the node\<close>

lemma or_size_list:
  "slot s n = Inr v \<Longrightarrow> size (py_or v (PyList [])) \<le> size_list (size_prod (\<lambda>x. 0) size) s"
  using or_size [of s n v Program] by simp

lemma then_iter_bound:
  "(\<And>x. x \<in> set (fst a) \<Longrightarrow> size x \<le> N) \<Longrightarrow> (\<And>x. x \<in> set (fst b) \<Longrightarrow> size x \<le> N)
   \<Longrightarrow> x \<in> set (fst (then_iter a b)) \<Longrightarrow> size x \<le> N"
  by (cases a; cases b; cases "snd a") auto

lemma yield_present_bound:
  "x \<in> set (fst (yield_present s n)) \<Longrightarrow> size x \<le> size_list (size_prod (\<lambda>x. 0) size) s"
  by (auto simp: yield_present_def raises_def split: sum.splits if_splits dest!: slot_size_list)

lemma yield_all_bound:
  "(\<And>v x. slot s n = Inr v \<Longrightarrow> x \<in> set (fst (py_iter (py_or v (PyList []))))
      \<Longrightarrow> size x \<le> size (py_or v (PyList [])))
   \<Longrightarrow> x \<in> set (fst (case slot s n of Inl e \<Rightarrow> raises e | Inr v \<Rightarrow> py_iter (py_or v (PyList []))))
   \<Longrightarrow> size x \<le> size_list (size_prod (\<lambda>x. 0) size) s"
  by (cases "slot s n") (auto simp: raises_def dest: or_size_list order_trans)

lemma then_iter_subset: "set (fst (then_iter a b)) \<subseteq> set (fst a) \<union> set (fst b)"
  by (cases a; cases b; cases "snd a") auto

lemma size_element: "x \<in> set xs \<Longrightarrow> size x \<le> size_list size xs"
  by (induction xs) auto

lemma iter_size:
  "x \<in> set (fst (py_iter v)) \<Longrightarrow> size x \<le> size v"
  "x \<in> set (fst (node_iter k s)) \<Longrightarrow> size x \<le> size_list (size_prod (\<lambda>x. 0) size) s"
proof (induction v and k s arbitrary: x and x rule: py_iter_node_iter.induct)
  case (5 xs)
  then show ?case by (auto dest: size_element)
next
  case (7 k s)
  then show ?case by force
next
  case (8 s)
  then show ?case by (simp only: node_iter.simps) (erule yield_all_bound, assumption)
next
  case (12 s)
  then show ?case by (simp only: node_iter.simps) (erule yield_all_bound, assumption)
next
  case (14 s)
  have "size y \<le> size_list (size_prod (\<lambda>x. 0) size) s"
    if "y \<in> set (fst (case slot s ''param_decls'' of Inl e \<Rightarrow> raises e
                         | Inr v \<Rightarrow> py_iter (py_or v (PyList []))))" for y
    using 14(1) that by (rule yield_all_bound)
  then show ?case using 14(2) unfolding node_iter.simps
    by (auto dest!: set_mp [OF then_iter_subset] dest: yield_present_bound)
next
  case (21 s)
  then show ?case
    by (cases "slot s ''decls''") (auto simp: raises_def split: prod.splits list.splits)
next
  case (22 s)
  then show ?case by (simp only: node_iter.simps) (erule yield_all_bound, assumption)
next
  case (23 s)
  then show ?case by (simp only: node_iter.simps) (erule yield_all_bound, assumption)
next
  case (24 s)
  then show ?case by (simp only: node_iter.simps) (erule yield_all_bound, assumption)
next
  case (28 s)
  then show ?case by (simp only: node_iter.simps) (erule yield_all_bound, assumption)
next
  case (36 s)
  then show ?case by (simp only: node_iter.simps) (erule yield_all_bound, assumption)
next
  case (37 s)
  then show ?case by (simp only: node_iter.simps) (erule yield_all_bound, assumption)
qed (auto simp: raises_def dest!: set_mp [OF then_iter_subset] dest: yield_present_bound)


lemma appends_set:
  "appends ms = Inr cs \<Longrightarrow> x \<in> set cs \<Longrightarrow> \<exists>m\<in>set ms. \<exists>xs. m = Inr xs \<and> x \<in> set xs"
proof (induction ms arbitrary: cs)
  case Nil
  then show ?case by simp
next
  case (Cons m ms)
  then show ?case by (cases m; cases "appends ms") auto
qed

lemma child_present_bound:
  "child_present s n = Inr cs \<Longrightarrow> x \<in> set cs
   \<Longrightarrow> size (snd x) \<le> size_list (size_prod (\<lambda>x. 0) size) s"
  by (cases "slot s n") (auto simp: child_present_def split: if_splits dest!: slot_size_list)

lemma for_all_bound:
  "for_all it = Inr xs \<Longrightarrow> xs = fst it"
  by (auto simp: for_all_def split: prod.splits option.splits)

lemma in_enumerate_snd: "ic \<in> set (enumerate i xs) \<Longrightarrow> snd ic \<in> set xs"
  by (cases ic) (auto simp: enumerate_eq_zip dest: set_zip_rightD)

lemma child_seq_bound:
  "child_seq s n = Inr cs \<Longrightarrow> x \<in> set cs
   \<Longrightarrow> size (snd x) \<le> size_list (size_prod (\<lambda>x. 0) size) s"
  apply (cases "slot s n")
   apply (simp add: child_seq_def)
  subgoal for v
    apply (cases "for_all (py_iter (py_or v (PyList [])))")
     apply (simp add: child_seq_def)
    apply (frule for_all_bound)
    apply (auto simp: child_seq_def indexed_def dest!: in_enumerate_snd)
    apply (drule iter_size(1))
    apply (drule or_size_list)
    apply simp
    done
  done

lemma child_seq_present_bound:
  "child_seq_present s n = Inr cs \<Longrightarrow> x \<in> set cs
   \<Longrightarrow> size (snd x) \<le> size_list (size_prod (\<lambda>x. 0) size) s"
  apply (cases "slot s n")
   apply (simp add: child_seq_present_def)
  subgoal for v
    apply (cases "for_all (py_iter (py_or v (PyList [])))")
     apply (simp add: child_seq_present_def)
    apply (frule for_all_bound)
    apply (auto simp: child_seq_present_def indexed_def dest!: in_enumerate_snd)
    apply (drule iter_size(1))
    apply (drule or_size_list)
    apply simp
    done
  done

lemma children_of_bound:
  "children_of k s = Inr cs \<Longrightarrow> x \<in> set cs
   \<Longrightarrow> size (snd x) \<le> size_list (size_prod (\<lambda>x. 0) size) s"
  by (cases k)
    (auto simp del: appends.simps dest!: appends_set
       dest: child_present_bound [OF sym] child_seq_bound [OF sym] child_present_bound
         child_seq_bound child_seq_present_bound)

fun max_size :: "(string \<times> pyval) list \<Rightarrow> nat" where
  "max_size [] = 0"
| "max_size ((n, c) # cs) = max (size c) (max_size cs)"


lemma max_size_bound: "(\<And>x. x \<in> set cs \<Longrightarrow> size (snd x) \<le> N) \<Longrightarrow> max_size cs \<le> N"
  by (induction cs) fastforce+

lemma children_of_max_size:
  "children_of k s = Inr cs \<Longrightarrow> max_size cs \<le> size_list (size_prod (\<lambda>x. 0) size) s"
  by (rule max_size_bound) (rule children_of_bound)

text \<open>
  \<^verbatim>\<open>show\<close>: the buffer is the text written so far, and the result the text written and
  the exception that ended the call, if one did. A child that is not a node has no method
  \<^verbatim>\<open>show\<close>. \<open>show_children\<close> is the loop over \<^verbatim>\<open>self.children()\<close>.
\<close>

function "show" ::
    "pyval \<Rightarrow> string \<Rightarrow> int \<Rightarrow> bool \<Rightarrow> bool \<Rightarrow> bool \<Rightarrow> string option \<Rightarrow> string \<times> error option"
  and show_children ::
    "(string \<times> pyval) list \<Rightarrow> string \<Rightarrow> int \<Rightarrow> bool \<Rightarrow> bool \<Rightarrow> bool \<Rightarrow> string \<times> error option"
where
  "show (Node k s) buf offset attrnames nodenames showcoord my_node_name =
     (case attr_part attrnames k s of
        Inl e \<Rightarrow> (buf @ heading k offset nodenames my_node_name, Some e)
      | Inr attrs \<Rightarrow>
          (case coord_part showcoord s of
             Inl e \<Rightarrow> (buf @ heading k offset nodenames my_node_name @ attrs, Some e)
           | Inr coord \<Rightarrow>
               (case children_of k s of
                  Inl e \<Rightarrow>
                    (buf @ heading k offset nodenames my_node_name @ attrs @ coord @ [nl], Some e)
                | Inr cs \<Rightarrow>
                    show_children cs
                      (buf @ heading k offset nodenames my_node_name @ attrs @ coord @ [nl])
                      (offset + 4) attrnames nodenames showcoord)))"
| "show PyNone buf offset attrnames nodenames showcoord my_node_name = (buf, Some AttributeError)"
| "show (PyBool b) buf offset attrnames nodenames showcoord my_node_name = (buf, Some AttributeError)"
| "show (PyInt i) buf offset attrnames nodenames showcoord my_node_name = (buf, Some AttributeError)"
| "show (PyStr str) buf offset attrnames nodenames showcoord my_node_name = (buf, Some AttributeError)"
| "show (PyList xs) buf offset attrnames nodenames showcoord my_node_name = (buf, Some AttributeError)"
| "show (Coord line column) buf offset attrnames nodenames showcoord my_node_name =
     (buf, Some AttributeError)"
| "show_children [] buf offset attrnames nodenames showcoord = (buf, None)"
| "show_children ((child_name, child) # cs) buf offset attrnames nodenames showcoord =
     (case show child buf offset attrnames nodenames showcoord (Some child_name) of
        (buf', Some e) \<Rightarrow> (buf', Some e)
      | (buf', None) \<Rightarrow> show_children cs buf' offset attrnames nodenames showcoord)"
  by pat_completeness auto
termination
  apply (relation "inv_image (less_than <*lex*> less_than)
    (\<lambda>x. case x of
       Inl (v, rest) \<Rightarrow> (2 * size v, 0)
     | Inr (cs, rest) \<Rightarrow> (2 * max_size cs + 1, length cs))")
  apply (intro wf_inv_image wf_lex_prod wf_less_than)
  apply (auto dest!: children_of_max_size)
  done

section \<open>Properties of construction\<close>


lemmas call_defs = construct_def bind_args_def required_def optional_def init_def

lemma split_char_first: "py_first (split_char c s) = Inr (takeWhile (\<lambda>x. x \<noteq> c) s)"
  by (induction s) (auto split: list.splits)


text \<open>
  C10: for every \<open>gdecls\<close> value and every value \<open>s\<close> passed as the \<^verbatim>\<open>symtab\<close> argument,
  a \<^verbatim>\<open>Program\<close> constructed as \<^verbatim>\<open>Program(gdecls, symtab=s)\<close> has its \<^verbatim>\<open>symtab\<close> field equal
  to \<^verbatim>\<open>None\<close> after construction: the argument is accepted and discarded. The same holds
  when \<open>s\<close> is passed positionally, and whatever coordinate is passed.
\<close>

theorem Program_symtab_discarded:
  "construct Program [gdecls] [(''symtab'', s)]
     = Inr (Node Program [(''gdecls'', gdecls), (''symtab'', PyNone), (''coord'', PyNone)])
   \<and> construct Program [gdecls, s] []
     = Inr (Node Program [(''gdecls'', gdecls), (''symtab'', PyNone), (''coord'', PyNone)])
   \<and> construct Program [gdecls, s, c] []
     = Inr (Node Program [(''gdecls'', gdecls), (''symtab'', PyNone), (''coord'', c)])
   \<and> construct Program [gdecls] [(''symtab'', s), (''coord'', c)]
     = Inr (Node Program [(''gdecls'', gdecls), (''symtab'', PyNone), (''coord'', c)])
   \<and> getattr (Node Program [(''gdecls'', gdecls), (''symtab'', PyNone), (''coord'', c)]) ''symtab''
     = Inr PyNone"
  by (simp add: call_defs Program_init_def slot_def)

text \<open>
  C1, as stated, fails: \<^verbatim>\<open>Compound.__init__\<close> calls \<^verbatim>\<open>coord.split(":")\<close>, which only a
  string has. Constructing a \<^verbatim>\<open>Compound\<close> with the coordinate object \<^verbatim>\<open>Coord(10, 7)\<close> raises
  \<^verbatim>\<open>AttributeError\<close>: construction does not succeed for any supplied coordinate value.
\<close>

theorem Compound_Coord_object_raises:
  "construct Compound [PyList [], Coord (PyInt 10) (PyInt 7)] [] = Inl AttributeError"
  by (simp add: call_defs Compound_init_def)

text \<open>
  C1, amended: for every \<^verbatim>\<open>Compound\<close> constructed with a coordinate that is a string,
  construction succeeds and the stored coordinate is the text before the first colon of
  the supplied one, followed by \<^verbatim>\<open>:1\<close>; the supplied column is discarded. From the
  coordinate \<^verbatim>\<open>"10:7"\<close> (line 10, column 7) the stored coordinate is \<^verbatim>\<open>"10:1"\<close>: its column
  reads 1, not 7.
\<close>

theorem Compound_coord_normalized:
  "construct Compound [block_items, PyStr s] []
     = Inr (Node Compound [(''block_items'', block_items),
         (''coord'', PyStr (takeWhile (\<lambda>c. c \<noteq> CHR '':'') s @ '':1''))])
   \<and> construct Compound [block_items] [(''coord'', PyStr s)]
     = Inr (Node Compound [(''block_items'', block_items),
         (''coord'', PyStr (takeWhile (\<lambda>c. c \<noteq> CHR '':'') s @ '':1''))])
   \<and> construct Compound [block_items, PyStr ''10:7''] []
     = Inr (Node Compound [(''block_items'', block_items), (''coord'', PyStr ''10:1'')])"
  by (simp add: call_defs Compound_init_def split_char_first)

text \<open>
  C2 (the code at the failing inputs): \<^verbatim>\<open>Compound(block_items)\<close>, the coordinate left out,
  takes the default \<^verbatim>\<open>None\<close> of the signature and raises \<^verbatim>\<open>AttributeError\<close> at
  \<^verbatim>\<open>None.split\<close>; \<^verbatim>\<open>While(cond, statement)\<close> raises \<^verbatim>\<open>TypeError\<close>, since the signature of
  \<^verbatim>\<open>While.__init__\<close> alone gives \<^verbatim>\<open>coord\<close> no default.
\<close>

theorem coord_not_optional:
  "construct Compound [block_items] [] = Inl AttributeError
   \<and> construct While [cond, statement] [] = Inl TypeError"
  by (simp add: call_defs Compound_init_def)




section \<open>Properties of traversal\<close>

text \<open>
  C3 (the code at the failing inputs): a \<^verbatim>\<open>DeclList\<close> built from a list of one declaration
  \<open>d\<close> has the single child \<^verbatim>\<open>("decls[0]", d)\<close>, but iterating it yields nothing and raises
  \<^verbatim>\<open>NameError\<close>: the loop of \<^verbatim>\<open>DeclList.__iter__\<close> yields the unbound name \<^verbatim>\<open>child\<close>. A
  \<^verbatim>\<open>Print\<close> whose expression list holds \<^verbatim>\<open>None\<close> has no child, since \<^verbatim>\<open>Print.children\<close> tests
  \<^verbatim>\<open>child is not None\<close>, but iterating it yields that \<^verbatim>\<open>None\<close>.
\<close>

theorem iteration_differs_from_children:
  "construct DeclList [PyList [d]] [] = Inr (Node DeclList [(''decls'', PyList [d]), (''coord'', PyNone)])
   \<and> children (Node DeclList [(''decls'', PyList [d]), (''coord'', PyNone)]) = Inr [(''decls[0]'', d)]
   \<and> py_iter (Node DeclList [(''decls'', PyList [d]), (''coord'', PyNone)]) = ([], Some NameError)
   \<and> construct Print [PyList [PyNone]] []
       = Inr (Node Print [(''expression'', PyList [PyNone]), (''coord'', PyNone)])
   \<and> children (Node Print [(''expression'', PyList [PyNone]), (''coord'', PyNone)]) = Inr []
   \<and> py_iter (Node Print [(''expression'', PyList [PyNone]), (''coord'', PyNone)])
       = ([PyNone], None)"
  by (simp add: call_defs DeclList_init_def Print_init_def child_seq_def child_seq_present_def
      slot_def py_or_def for_all_def indexed_def enumerate_eq_zip dec.simps raises_def)

text \<open>
  C4 (the code at the failing inputs): iterating a \<^verbatim>\<open>DeclList\<close> with a declaration raises
  \<^verbatim>\<open>NameError\<close>; iterating a \<^verbatim>\<open>Constant\<close> or an \<^verbatim>\<open>ID\<close> raises \<^verbatim>\<open>TypeError\<close>, since their
  \<^verbatim>\<open>__iter__\<close> returns \<^verbatim>\<open>None\<close>; and the representation formatter raises \<^verbatim>\<open>AttributeError\<close> on
  every \<^verbatim>\<open>EmptyStatement\<close> and every \<^verbatim>\<open>Break\<close>, whose \<^verbatim>\<open>__slots__\<close> is the string \<^verbatim>\<open>"coord"\<close>:
  \<^verbatim>\<open>__repr__\<close> reads the attribute \<^verbatim>\<open>c\<close>.
\<close>

theorem traversal_and_printing_raise:
  "py_iter (Node DeclList [(''decls'', PyList [d]), (''coord'', c)]) = ([], Some NameError)
   \<and> py_iter (Node Constant [(''type'', t), (''value'', v), (''coord'', c), (''rawtype'', t),
         (''gen_location'', PyNone)]) = ([], Some TypeError)
   \<and> py_iter (Node ID [(''name'', n), (''coord'', c), (''type'', PyNone), (''bind'', PyNone),
         (''scope'', PyNone), (''model'', PyNone), (''gen_location'', PyNone)]) = ([], Some TypeError)
   \<and> construct EmptyStatement [] [] = Inr (Node EmptyStatement [(''coord'', PyNone)])
   \<and> py_repr (Node EmptyStatement [(''coord'', c)]) = Inl AttributeError
   \<and> construct Break [] [] = Inr (Node Break [(''coord'', PyNone)])
   \<and> py_repr (Node Break [(''coord'', c)]) = Inl AttributeError"
  by (simp add: call_defs EmptyStatement_init_def Break_init_def slot_def py_or_def raises_def)

section \<open>Properties of the representation formatter\<close>

text \<open>
  C5 (the code at the failing input): \<^verbatim>\<open>Constant('int', 3)\<close> is rendered with its
  coordinate, \<^verbatim>\<open>coord=None\<close>, and without its last slot \<^verbatim>\<open>gen_location\<close>: \<^verbatim>\<open>__repr__\<close> leaves
  out the last name of \<^verbatim>\<open>__slots__\<close>, which is \<^verbatim>\<open>coord\<close> in \<^verbatim>\<open>Decl\<close> (rendered without its
  coordinate) but not in \<^verbatim>\<open>Constant\<close>.
\<close>

theorem Constant_repr_renders_coord:
  "construct Constant [PyStr ''int'', PyInt 3] []
     = Inr (Node Constant [(''type'', PyStr ''int''), (''value'', PyInt 3), (''coord'', PyNone),
         (''rawtype'', PyStr ''int''), (''gen_location'', PyNone)])
   \<and> py_repr (Node Constant [(''type'', PyStr ''int''), (''value'', PyInt 3), (''coord'', PyNone),
         (''rawtype'', PyStr ''int''), (''gen_location'', PyNone)])
     = Inr (''Constant(type='' @ [CHR 0x27] @ ''int'' @ [CHR 0x27] @ '','' @ [nl]
         @ ''         value=3,'' @ [nl]
         @ ''         coord=None,'' @ [nl]
         @ ''         rawtype='' @ [CHR 0x27] @ ''int'' @ [CHR 0x27] @ '')'')
   \<and> py_repr (Node Decl [(''name'', PyNone), (''type'', PyNone), (''init'', PyNone),
         (''coord'', PyNone)])
     = Inr (''Decl(name=None,'' @ [nl] @ ''     type=None,'' @ [nl] @ ''     init=None)'')"
  by code_simp

text \<open>
  C6, as stated, fails: the representation of a \<^verbatim>\<open>Program\<close> of two \<^verbatim>\<open>GlobalDecl\<close> children,
  each with an empty declaration list, is not the text
  \<^verbatim>\<open>Program(gdecls=[GlobalDecl(decls=[]),\n GlobalDecl(decls=[])\n])\<close>.
\<close>

theorem Program_repr_is_not_the_example:
  "py_repr (Node Program [(''gdecls'', PyList [
        Node GlobalDecl [(''decls'', PyList []), (''coord'', PyNone)],
        Node GlobalDecl [(''decls'', PyList []), (''coord'', PyNone)]]),
      (''symtab'', PyNone), (''coord'', PyNone)])
   \<noteq> Inr ''Program(gdecls=[GlobalDecl(decls=[]),\<newline> GlobalDecl(decls=[])\<newline>])''"
  by code_simp

text \<open>
  C6, amended: for a \<^verbatim>\<open>Program\<close> holding exactly two \<^verbatim>\<open>GlobalDecl\<close> children, each
  constructed with an empty declaration list, the representation formatter produces
  exactly the text below. An empty list is rendered as \<^verbatim>\<open>[\<close>, newline, \<^verbatim>\<open>]\<close>; the elements
  of a list are joined by comma, newline, space; inside the list every newline of an
  element is followed by one more space, and inside \<^verbatim>\<open>Program(gdecls=\<close> every newline of
  the value by fifteen more (two, and the lengths of \<^verbatim>\<open>gdecls\<close> and \<^verbatim>\<open>Program\<close>); the field
  \<^verbatim>\<open>symtab\<close> follows on a line of its own.
\<close>

theorem Program_repr_two_empty_globals:
  "construct GlobalDecl [PyList []] []
     = Inr (Node GlobalDecl [(''decls'', PyList []), (''coord'', PyNone)])
   \<and> construct Program [PyList [
        Node GlobalDecl [(''decls'', PyList []), (''coord'', PyNone)],
        Node GlobalDecl [(''decls'', PyList []), (''coord'', PyNone)]]] []
     = Inr (Node Program [(''gdecls'', PyList [
          Node GlobalDecl [(''decls'', PyList []), (''coord'', PyNone)],
          Node GlobalDecl [(''decls'', PyList []), (''coord'', PyNone)]]),
        (''symtab'', PyNone), (''coord'', PyNone)])
   \<and> py_repr (Node Program [(''gdecls'', PyList [
        Node GlobalDecl [(''decls'', PyList []), (''coord'', PyNone)],
        Node GlobalDecl [(''decls'', PyList []), (''coord'', PyNone)]]),
      (''symtab'', PyNone), (''coord'', PyNone)])
     = Inr ''Program(gdecls=[GlobalDecl(decls=[\<newline>                                 ]),\<newline>                GlobalDecl(decls=[\<newline>                                 ])\<newline>               ],\<newline>        symtab=None)''"
  by code_simp

end
